theory Spec2Isabelle
  imports Complex_Main
begin

section \<open>Camera control widget: data model\<close>

text \<open>
  The development embeds the camera visualizer component (\<^verbatim>\<open>CameraVisualizer\<close>) and the
  parameter record of \<^verbatim>\<open>types.ts\<close>. A JavaScript number is modelled by the real number it
  denotes. \<^verbatim>\<open>Math.round\<close> is \<open>\<lfloor>x + 1/2\<rfloor>\<close> (ties go up), \<^verbatim>\<open>Math.max\<close> and \<^verbatim>\<open>Math.min\<close>
  are \<open>max\<close> and \<open>min\<close>; all three are exact on doubles. The distance rules round every
  product, sum and quotient to the nearest double (\<open>fl64\<close> below), as the source does:
  there the rounding decides which hundredth is published. Pointer coordinates are
  numbers whose difference is exact. The angle rules, the scene and the projection are
  read in exact arithmetic. A division whose divisor is zero
  yields Infinity or NaN in JavaScript, which is no real number; the model returns
  \<open>None\<close> there.
\<close>

record CameraParams =
  azimuth :: real
  elevation :: real
  distance :: real

text \<open>The drag target is \<^verbatim>\<open>'azimuth' | 'elevation' | 'zoom' | 'orbit' | null\<close>;
  \<^verbatim>\<open>null\<close> is \<open>None\<close>.\<close>

datatype DragTarget = Azimuth | Elevation | Zoom | Orbit

text \<open>\<^verbatim>\<open>lastMousePos.current = { x, y }\<close>\<close>

record MousePos =
  lastX :: real
  lastY :: real

text \<open>The fields of a mouse event that the handlers read.\<close>

record MouseEvent =
  clientX :: real
  clientY :: real

text \<open>The interaction state of one widget instance: \<^verbatim>\<open>dragTarget\<close> (a state hook) and
  \<^verbatim>\<open>lastMousePos\<close> (a ref).\<close>

record Widget =
  dragTarget :: "DragTarget option"
  lastMousePos :: MousePos

text \<open>The properties the host passes in. The callback \<^verbatim>\<open>onUpdate\<close> is optional; the model
  keeps whether it is supplied, and every handler returns the argument of its call to
  \<^verbatim>\<open>onUpdate\<close> (\<open>None\<close> when the handler does not call it).\<close>

record Props =
  params :: CameraParams
  onUpdate :: bool

definition Math_round :: "real \<Rightarrow> real" where
  "Math_round v = of_int \<lfloor>v + 1 / 2\<rfloor>"

subsection \<open>Rounding to the nearest double\<close>

text \<open>Rounding to the nearest integer, ties to the even one.\<close>

definition rne :: "real \<Rightarrow> int" where
  "rne q = (let f = \<lfloor>q\<rfloor>; r = q - of_int f
            in if r < 1 / 2 then f
               else if 1 / 2 < r then f + 1
               else if even f then f else f + 1)"

text \<open>The IEEE 754 binary64 value nearest to a real number, ties to even: 53 significant
  bits, so a number of binary exponent \<open>e\<close> is rounded to a multiple of \<open>2 powr (e - 52)\<close>.
  The exponent range is taken unbounded: no overflow to Infinity and no subnormal
  numbers, both far from the magnitudes of distances and pointer deltas.\<close>

definition fl64 :: "real \<Rightarrow> real" where
  "fl64 v = (if v = 0 then 0
             else (let e = \<lfloor>log 2 \<bar>v\<bar>\<rfloor>;
                       u = 2 powr (of_int e - 52)
                   in of_int (rne (v / u)) * u))"

section \<open>Projection\<close>

text \<open>The view configuration: the constants \<^verbatim>\<open>width\<close>, \<^verbatim>\<open>height\<close>, \<^verbatim>\<open>viewPitch\<close>,
  \<^verbatim>\<open>viewYaw\<close>, \<^verbatim>\<open>scaleFactor\<close> of the component and \<^verbatim>\<open>depth\<close> of \<^verbatim>\<open>project\<close>, taken as a
  parameter; \<open>editorView\<close> holds the values of the source.\<close>

record View =
  width :: real
  height :: real
  viewPitch :: real
  viewYaw :: real
  scaleFactor :: real
  depth :: real

definition editorView :: View where
  "editorView = \<lparr> width = 600, height = 400,
                   viewPitch = 20 * pi / 180, viewYaw = 45 * pi / 180,
                   scaleFactor = 130, depth = 800 \<rparr>"

text \<open>The result \<^verbatim>\<open>{ x, y, scale, z }\<close> of \<^verbatim>\<open>project\<close>.\<close>

record Projected =
  projX :: real
  projY :: real
  projScale :: real
  projZ :: real

definition projectWith :: "View \<Rightarrow> real \<Rightarrow> real \<Rightarrow> real \<Rightarrow> Projected option" where
  "projectWith v x y z =
     (let cx = width v / 2;
          cy = height v / 2;
          x1 = x * cos (viewYaw v) - z * sin (viewYaw v);
          z1 = x * sin (viewYaw v) + z * cos (viewYaw v);
          y2 = y * cos (viewPitch v) - z1 * sin (viewPitch v);
          z2 = y * sin (viewPitch v) + z1 * cos (viewPitch v);
          x2 = x1
      in if depth v + z2 * - 1 = 0 then None
         else
           (let s = depth v / (depth v + z2 * - 1)
            in Some \<lparr> projX = cx + x2 * scaleFactor v / 50 * s,
                       projY = cy - y2 * scaleFactor v / 50 * s,
                       projScale = s,
                       projZ = z2 \<rparr>))"

definition project :: "real \<Rightarrow> real \<Rightarrow> real \<Rightarrow> Projected option" where
  "project x y z = projectWith editorView x y z"

section \<open>Scene construction\<close>

definition rad :: "real \<Rightarrow> real" where
  "rad deg = deg * pi / 180"

definition ringRadius :: "CameraParams \<Rightarrow> real" where
  "ringRadius p = 50 + (distance p * 25)"

definition camX :: "CameraParams \<Rightarrow> real" where
  "camX p = ringRadius p * sin (rad (azimuth p)) * cos (rad (elevation p))"

definition camY :: "CameraParams \<Rightarrow> real" where
  "camY p = ringRadius p * sin (rad (elevation p))"

definition camZ :: "CameraParams \<Rightarrow> real" where
  "camZ p = ringRadius p * cos (rad (azimuth p)) * cos (rad (elevation p))"

definition azHandleX :: "CameraParams \<Rightarrow> real" where
  "azHandleX p = ringRadius p * sin (rad (azimuth p))"

definition azHandleY :: "CameraParams \<Rightarrow> real" where
  "azHandleY p = 0"

definition azHandleZ :: "CameraParams \<Rightarrow> real" where
  "azHandleZ p = ringRadius p * cos (rad (azimuth p))"

definition elHandleX :: "CameraParams \<Rightarrow> real" where
  "elHandleX p = camX p"

definition elHandleY :: "CameraParams \<Rightarrow> real" where
  "elHandleY p = camY p"

definition elHandleZ :: "CameraParams \<Rightarrow> real" where
  "elHandleZ p = camZ p"

section \<open>Interaction logic\<close>

definition handleMouseDown :: "Props \<Rightarrow> Widget \<Rightarrow> MouseEvent \<Rightarrow> DragTarget \<Rightarrow> Widget" where
  "handleMouseDown pr w e target =
     (if \<not> onUpdate pr then w
      else w \<lparr> dragTarget := Some target,
               lastMousePos := \<lparr> lastX = clientX e, lastY = clientY e \<rparr> \<rparr>)"

definition handleMouseMove :: "Props \<Rightarrow> Widget \<Rightarrow> MouseEvent \<Rightarrow> Widget \<times> CameraParams option" where
  "handleMouseMove pr w e =
     (case dragTarget w of
        None \<Rightarrow> (w, None)
      | Some target \<Rightarrow>
          if \<not> onUpdate pr then (w, None)
          else
            (let deltaX = clientX e - lastX (lastMousePos w);
                 deltaY = clientY e - lastY (lastMousePos w);
                 w' = w \<lparr> lastMousePos := \<lparr> lastX = clientX e, lastY = clientY e \<rparr> \<rparr>;
                 rotSens = 0.8
             in case target of
                  Azimuth \<Rightarrow>
                    (let newAz = azimuth (params pr) + deltaX * rotSens;
                         newAz = (if newAz \<ge> 360 then newAz - 360 else newAz);
                         newAz = (if newAz < 0 then newAz + 360 else newAz)
                     in (w', Some ((params pr) \<lparr> azimuth := Math_round newAz \<rparr>)))
                | Elevation \<Rightarrow>
                    (let newEl = elevation (params pr) - deltaY * rotSens;
                         newEl = max (- 85) (min 85 newEl)
                     in (w', Some ((params pr) \<lparr> elevation := Math_round newEl \<rparr>)))
                | Zoom \<Rightarrow>
                    (let newDist = fl64 (distance (params pr) + fl64 (deltaY * fl64 0.005));
                         newDist = max 0.5 (min 2.0 newDist)
                     in (w', Some ((params pr)
                           \<lparr> distance := fl64 (Math_round (fl64 (newDist * 100)) / 100) \<rparr>)))
                | Orbit \<Rightarrow>
                    (let newAz = azimuth (params pr) + deltaX * rotSens;
                         newAz = (if newAz \<ge> 360 then newAz - 360 else newAz);
                         newAz = (if newAz < 0 then newAz + 360 else newAz);
                         newEl = elevation (params pr) - deltaY * rotSens;
                         newEl = max (- 85) (min 85 newEl)
                     in (w', Some ((params pr) \<lparr> azimuth := Math_round newAz,
                                                  elevation := Math_round newEl \<rparr>)))))"

definition handleMouseUp :: "Widget \<Rightarrow> Widget" where
  "handleMouseUp w = w \<lparr> dragTarget := None \<rparr>"

text \<open>\<^verbatim>\<open>handleWheel\<close> reads \<^verbatim>\<open>e.deltaY\<close> only and leaves the widget state alone.\<close>

definition handleWheel :: "Props \<Rightarrow> real \<Rightarrow> CameraParams option" where
  "handleWheel pr wheelDeltaY =
     (let newDist = fl64 (distance (params pr) + fl64 (wheelDeltaY * fl64 0.001));
          newDist = max 0.5 (min 2.0 newDist)
      in if onUpdate pr
         then Some ((params pr) \<lparr> distance := fl64 (Math_round (fl64 (newDist * 100)) / 100) \<rparr>)
         else None)"

subsection \<open>Event wiring\<close>

text \<open>The elements of the rendered tree that carry \<^verbatim>\<open>onMouseDown\<close>: the background orbit
  layer, the azimuth handle, the elevation handle and the camera body. Each passes a fixed
  target to \<^verbatim>\<open>handleMouseDown\<close>.\<close>

datatype Element = Background | AzimuthHandle | ElevationHandle | CameraBody

fun mouseDownTarget :: "Element \<Rightarrow> DragTarget" where
  "mouseDownTarget Background = Orbit"
| "mouseDownTarget AzimuthHandle = Azimuth"
| "mouseDownTarget ElevationHandle = Elevation"
| "mouseDownTarget CameraBody = Elevation"

text \<open>The container wires \<^verbatim>\<open>onMouseMove\<close> to \<^verbatim>\<open>handleMouseMove\<close> and both \<^verbatim>\<open>onMouseUp\<close>
  and \<^verbatim>\<open>onMouseLeave\<close> to \<^verbatim>\<open>handleMouseUp\<close>; the background layer wires \<^verbatim>\<open>onWheel\<close>.\<close>

datatype Event =
    MouseDown Element MouseEvent
  | MouseMove MouseEvent
  | MouseUp
  | MouseLeave
  | Wheel real

fun dispatch :: "Props \<Rightarrow> Widget \<Rightarrow> Event \<Rightarrow> Widget \<times> CameraParams option" where
  "dispatch pr w (MouseDown el e) = (handleMouseDown pr w e (mouseDownTarget el), None)"
| "dispatch pr w (MouseMove e) = handleMouseMove pr w e"
| "dispatch pr w MouseUp = (handleMouseUp w, None)"
| "dispatch pr w MouseLeave = (handleMouseUp w, None)"
| "dispatch pr w (Wheel d) = (w, handleWheel pr d)"

text \<open>A session of the widget inside its host: the host owns the parameter triple and, as
  \<^verbatim>\<open>App\<close> does with \<^verbatim>\<open>onUpdate={setCameraParams}\<close>, replaces it by whatever the callback
  receives. \<open>calls\<close> logs the arguments of the calls to \<^verbatim>\<open>onUpdate\<close>, latest first.\<close>

record Session =
  hostParams :: CameraParams
  widget :: Widget
  calls :: "CameraParams list"

definition step :: "bool \<Rightarrow> Session \<Rightarrow> Event \<Rightarrow> Session" where
  "step cb s ev =
     (case dispatch \<lparr> params = hostParams s, onUpdate = cb \<rparr> (widget s) ev of
        (w', None) \<Rightarrow> s \<lparr> widget := w' \<rparr>
      | (w', Some p') \<Rightarrow> \<lparr> hostParams = p', widget = w', calls = p' # calls s \<rparr>)"

definition run :: "bool \<Rightarrow> Session \<Rightarrow> Event list \<Rightarrow> Session" where
  "run cb s evs = foldl (step cb) s evs"

definition initialWidget :: Widget where
  "initialWidget = \<lparr> dragTarget = None, lastMousePos = \<lparr> lastX = 0, lastY = 0 \<rparr> \<rparr>"

section \<open>Rounding to doubles\<close>

lemma rne_of_int: "rne (of_int n) = n"
  by (simp add: rne_def)

lemma rne_bounds: "\<lfloor>q\<rfloor> \<le> rne q \<and> rne q \<le> \<lfloor>q\<rfloor> + 1"
  by (simp add: rne_def Let_def)

lemma rne_mono:
  assumes "p \<le> q"
  shows "rne p \<le> rne q"
proof (cases "\<lfloor>p\<rfloor> = \<lfloor>q\<rfloor>")
  case True
  then show ?thesis
    using assms by (auto simp add: rne_def Let_def)
next
  case False
  then have "\<lfloor>p\<rfloor> + 1 \<le> \<lfloor>q\<rfloor>"
    using floor_mono [OF assms] by linarith
  then show ?thesis
    using rne_bounds [of p] rne_bounds [of q] by linarith
qed

lemma rne_ge: "of_int n \<le> q \<Longrightarrow> n \<le> rne q"
  using rne_mono [of "of_int n" q] by (simp add: rne_of_int)

lemma rne_le: "q \<le> of_int n \<Longrightarrow> rne q \<le> n"
  using rne_mono [of q "of_int n"] by (simp add: rne_of_int)

lemma rne_error: "\<bar>of_int (rne q) - q\<bar> \<le> 1 / 2"
proof -
  have "of_int \<lfloor>q\<rfloor> \<le> q" "q < of_int \<lfloor>q\<rfloor> + 1"
    by linarith+
  then show ?thesis
    by (auto simp add: rne_def Let_def)
qed

lemma floor_log2_bounds:
  assumes "0 < v"
  shows "2 powr of_int \<lfloor>log 2 v\<rfloor> \<le> v" "v < 2 powr (of_int \<lfloor>log 2 v\<rfloor> + 1)"
proof -
  have v: "2 powr log 2 v = v"
    using assms by simp
  have "2 powr of_int \<lfloor>log 2 v\<rfloor> \<le> 2 powr log 2 v"
    by (simp del: powr_log_cancel)
  then show "2 powr of_int \<lfloor>log 2 v\<rfloor> \<le> v"
    unfolding v .
  have "log 2 v < of_int \<lfloor>log 2 v\<rfloor> + 1"
    by linarith
  then have "2 powr log 2 v < 2 powr (of_int \<lfloor>log 2 v\<rfloor> + 1)"
    by (simp del: powr_log_cancel)
  then show "v < 2 powr (of_int \<lfloor>log 2 v\<rfloor> + 1)"
    unfolding v .
qed

lemma floor_log2_eq:
  assumes "2 powr of_int e \<le> v" "v < 2 powr (of_int e + 1)"
  shows "\<lfloor>log 2 v\<rfloor> = e"
proof -
  have pos: "0 < v"
    using assms(1) powr_gt_zero [of 2 "of_int e"] by linarith
  have "of_int e \<le> log 2 v"
    using assms(1) pos by (simp add: le_log_iff)
  moreover have "log 2 v < of_int e + 1"
    using assms(2) pos by (simp add: log_less_iff)
  ultimately show ?thesis
    by (simp add: floor_eq_iff)
qed

text \<open>The value of \<open>fl64\<close> once the binary exponent is known; this is how concrete
  roundings are evaluated.\<close>

lemma fl64_val:
  assumes "2 powr of_int e \<le> \<bar>v\<bar>" "\<bar>v\<bar> < 2 powr (of_int e + 1)"
  shows "fl64 v = of_int (rne (v / 2 powr (of_int e - 52))) * 2 powr (of_int e - 52)"
proof -
  have "v \<noteq> 0"
    using assms(1) powr_gt_zero [of 2 "of_int e"] by auto
  moreover have "\<lfloor>log 2 \<bar>v\<bar>\<rfloor> = e"
    using assms by (rule floor_log2_eq)
  ultimately show ?thesis
    by (simp add: fl64_def Let_def)
qed

lemma fl64_pos:
  "0 < v \<Longrightarrow> fl64 v = of_int (rne (v / 2 powr (of_int \<lfloor>log 2 v\<rfloor> - 52))) *
      2 powr (of_int \<lfloor>log 2 v\<rfloor> - 52)"
  by (simp add: fl64_def Let_def)

lemma fl64_lower:
  assumes "0 < v"
  shows "2 powr of_int \<lfloor>log 2 v\<rfloor> \<le> fl64 v"
proof -
  let ?e = "\<lfloor>log 2 v\<rfloor>"
  let ?u = "2 powr (of_int ?e - 52) :: real"
  have u: "0 < ?u" by simp
  have split: "2 powr of_int ?e = of_int (2 ^ 52) * ?u"
    by (simp add: powr_diff)
  have "of_int (2 ^ 52) \<le> v / ?u"
    using floor_log2_bounds(1) [OF assms] u unfolding split by (simp add: pos_le_divide_eq)
  then have "2 ^ 52 \<le> rne (v / ?u)"
    by (rule rne_ge)
  then have "of_int (2 ^ 52) * ?u \<le> of_int (rne (v / ?u)) * ?u"
    using u by (simp only: mult_le_cancel_right_pos of_int_le_iff)
  then show ?thesis
    by (simp only: split fl64_pos [OF assms])
qed

lemma fl64_upper:
  assumes "0 < v"
  shows "fl64 v \<le> 2 powr (of_int \<lfloor>log 2 v\<rfloor> + 1)"
proof -
  let ?e = "\<lfloor>log 2 v\<rfloor>"
  let ?u = "2 powr (of_int ?e - 52) :: real"
  have u: "0 < ?u" by simp
  have split: "2 powr (of_int ?e + 1) = of_int (2 ^ 53) * ?u"
    by (simp add: powr_diff powr_add)
  have "v / ?u \<le> of_int (2 ^ 53)"
    using floor_log2_bounds(2) [OF assms] u unfolding split by (simp add: pos_divide_le_eq)
  then have "rne (v / ?u) \<le> 2 ^ 53"
    by (rule rne_le)
  then have "of_int (rne (v / ?u)) * ?u \<le> of_int (2 ^ 53) * ?u"
    using u by (simp only: mult_le_cancel_right_pos of_int_le_iff)
  then show ?thesis
    by (simp only: split fl64_pos [OF assms])
qed

text \<open>Rounding is monotone: within one binade by the monotonicity of \<open>rne\<close>, across
  binades because a rounded value stays within the closed binade of its argument.\<close>

lemma fl64_mono:
  assumes "0 < v" "v \<le> w"
  shows "fl64 v \<le> fl64 w"
proof -
  let ?ev = "\<lfloor>log 2 v\<rfloor>"
  let ?ew = "\<lfloor>log 2 w\<rfloor>"
  have w: "0 < w" using assms by linarith
  have "log 2 v \<le> log 2 w"
    using assms w by simp
  then have le: "?ev \<le> ?ew"
    by (rule floor_mono)
  show ?thesis
  proof (cases "?ev = ?ew")
    case True
    let ?u = "2 powr (of_int ?ew - 52) :: real"
    have u: "0 < ?u" by simp
    have "v / ?u \<le> w / ?u"
      using assms(2) u by (simp add: divide_right_mono)
    then have "rne (v / ?u) \<le> rne (w / ?u)"
      by (rule rne_mono)
    then have "of_int (rne (v / ?u)) * ?u \<le> of_int (rne (w / ?u)) * ?u"
      using u by (simp only: mult_le_cancel_right_pos of_int_le_iff)
    then show ?thesis
      by (simp only: fl64_pos [OF assms(1)] fl64_pos [OF w] True)
  next
    case False
    then have "of_int ?ev + 1 \<le> (of_int ?ew :: real)"
      using le by linarith
    then have "(2::real) powr (of_int ?ev + 1) \<le> 2 powr of_int ?ew"
      by simp
    then show ?thesis
      using fl64_upper [OF assms(1)] fl64_lower [OF w] by linarith
  qed
qed

lemma fl64_error:
  assumes "0 < v"
  shows "\<bar>fl64 v - v\<bar> \<le> 2 powr (of_int \<lfloor>log 2 v\<rfloor> - 53)"
proof -
  let ?u = "2 powr (of_int \<lfloor>log 2 v\<rfloor> - 52) :: real"
  have u: "0 < ?u" by simp
  have half: "2 powr (of_int \<lfloor>log 2 v\<rfloor> - 53) = 1 / 2 * ?u"
    by (simp add: powr_diff)
  have "fl64 v - v = (of_int (rne (v / ?u)) - v / ?u) * ?u"
    using u by (simp add: fl64_pos [OF assms] left_diff_distrib)
  then have "\<bar>fl64 v - v\<bar> = \<bar>of_int (rne (v / ?u)) - v / ?u\<bar> * ?u"
    using u by (simp add: abs_mult)
  also have "\<dots> \<le> 1 / 2 * ?u"
    using rne_error [of "v / ?u"] u by (simp only: mult_le_cancel_right_pos)
  finally show ?thesis
    unfolding half .
qed

lemma fl64_half: "fl64 (1 / 2) = 1 / 2"
  using fl64_val [of "- 1" "1 / 2"] by (simp add: powr_neg_numeral rne_def powr_minus)

lemma fl64_1: "fl64 1 = 1"
  using fl64_val [of 0 1] by (simp add: powr_neg_numeral rne_def)

lemma fl64_2: "fl64 2 = 2"
  using fl64_val [of 1 2] by (simp add: powr_neg_numeral rne_def)

lemma fl64_50: "fl64 50 = 50"
  using fl64_val [of 5 50] by (simp add: powr_neg_numeral rne_def)

lemma fl64_200: "fl64 200 = 200"
  using fl64_val [of 7 200] by (simp add: powr_neg_numeral rne_def)

text \<open>The literals \<^verbatim>\<open>0.001\<close> and \<^verbatim>\<open>0.005\<close> as doubles.\<close>

lemma fl64_wheel_gain: "fl64 0.001 = 1152921504606847 / 2 ^ 60"
  using fl64_val [of "- 10" "0.001"] by (simp add: powr_neg_numeral rne_def)

lemma fl64_zoom_gain: "fl64 0.005 = 5764607523034235 / 2 ^ 60"
  using fl64_val [of "- 8" "0.005"] by (simp add: powr_neg_numeral rne_def)

lemma fl64_error_below:
  assumes "0 < v" "v < 2 powr of_int n"
  shows "\<bar>fl64 v - v\<bar> \<le> 2 powr (of_int n - 54)"
proof -
  have "log 2 v < of_int n"
    using assms by (simp add: log_less_iff)
  then have "\<lfloor>log 2 v\<rfloor> < n"
    by (simp add: floor_less_iff)
  then have "of_int \<lfloor>log 2 v\<rfloor> - 53 \<le> (of_int n - 54 :: real)"
    by linarith
  then have "(2::real) powr (of_int \<lfloor>log 2 v\<rfloor> - 53) \<le> 2 powr (of_int n - 54)"
    by (simp only: powr_le_cancel_iff one_less_numeral_iff semiring_norm)
  then show ?thesis
    using fl64_error [OF assms(1)] by linarith
qed

text \<open>A two-decimal number between 0.5 and 2, as a double, is within \<open>2\<^sup>-\<^sup>5\<^sup>2\<close> of the
  decimal it stands for, and rounding it to two decimals again returns it.\<close>

lemma two_decimal_error:
  fixes k :: int
  assumes "50 \<le> k" "k \<le> 200"
  shows "\<bar>fl64 (of_int k / 100) - of_int k / 100\<bar> \<le> 1 / 2 ^ 52"
proof -
  have "\<bar>fl64 (of_int k / 100) - of_int k / 100\<bar> \<le> 2 powr (of_int 2 - 54)"
    by (rule fl64_error_below) (use assms in simp_all)
  then show ?thesis
    by (simp add: powr_neg_numeral)
qed

lemma two_decimal_range:
  fixes k :: int
  assumes "50 \<le> k" "k \<le> 200"
  shows "1 / 2 \<le> fl64 (of_int k / 100)" "fl64 (of_int k / 100) \<le> 2"
proof -
  have v: "1 / 2 \<le> (of_int k / 100 :: real)" "(of_int k / 100 :: real) \<le> 2"
    using assms by simp_all
  have "fl64 (1 / 2) \<le> fl64 (of_int k / 100)"
    by (rule fl64_mono) (use v in simp_all)
  then show "1 / 2 \<le> fl64 (of_int k / 100)"
    by (simp only: fl64_half)
  have "fl64 (of_int k / 100) \<le> fl64 2"
    by (rule fl64_mono) (use v in simp_all)
  then show "fl64 (of_int k / 100) \<le> 2"
    by (simp only: fl64_2)
qed

lemma two_decimal_fixpoint:
  fixes k :: int
  assumes "50 \<le> k" "k \<le> 200"
  shows "Math_round (fl64 (fl64 (of_int k / 100) * 100)) = of_int k"
proof -
  define x where "x = fl64 (of_int k / 100)"
  define t where "t = fl64 (x * 100)"
  have near: "\<bar>x - of_int k / 100\<bar> \<le> 1 / 2 ^ 52"
    unfolding x_def using assms by (rule two_decimal_error)
  have range: "1 / 2 \<le> x" "x \<le> 2"
    unfolding x_def using assms by (rule two_decimal_range)+
  have pos: "0 < x * 100"
    using range(1) by linarith
  have "x * 100 < 256"
    using range(2) by linarith
  then have below: "x * 100 < 2 powr of_int 8"
    by simp
  have "\<bar>t - x * 100\<bar> \<le> 2 powr (of_int 8 - 54)"
    unfolding t_def using pos below by (rule fl64_error_below)
  then have err: "\<bar>t - x * 100\<bar> \<le> 1 / 2 ^ 46"
    by (simp add: powr_neg_numeral)
  have small: "(1 / 2 ^ 46 + 100 * (1 / 2 ^ 52) :: real) < 1 / 2"
    by simp
  have "\<bar>x * 100 - of_int k\<bar> = 100 * \<bar>x - of_int k / 100\<bar>"
    by (simp add: abs_if)
  then have "\<bar>x * 100 - of_int k\<bar> \<le> 100 * (1 / 2 ^ 52)"
    using near by linarith
  then have "\<bar>t - of_int k\<bar> \<le> 1 / 2 ^ 46 + 100 * (1 / 2 ^ 52)"
    using err by linarith
  then have close: "\<bar>t - of_int k\<bar> < 1 / 2"
    using small by linarith
  have "\<lfloor>t + 1 / 2\<rfloor> = k"
  proof (rule floor_unique)
    show "of_int k \<le> t + 1 / 2"
      using close by linarith
    show "t + 1 / 2 < of_int k + 1"
      using close by linarith
  qed
  then show ?thesis
    by (simp add: Math_round_def t_def x_def)
qed

section \<open>Rounding and the handlers in closed form\<close>

lemma Math_round_between:
  fixes lo hi :: int
  assumes "of_int lo \<le> v" "v \<le> of_int hi"
  shows "of_int lo \<le> Math_round v \<and> Math_round v \<le> of_int hi"
proof -
  have "lo \<le> \<lfloor>v + 1 / 2\<rfloor>"
    using assms(1) by (simp add: le_floor_iff)
  moreover have "\<lfloor>v + 1 / 2\<rfloor> \<le> hi"
    using assms(2) by (simp add: floor_le_iff)
  ultimately show ?thesis
    unfolding Math_round_def by simp
qed

lemma Math_round_below_half:
  fixes k :: int
  assumes "v < of_int k - 1 / 2"
  shows "Math_round v < of_int k"
proof -
  have "\<lfloor>v + 1 / 2\<rfloor> < k"
    using assms by (simp add: floor_less_iff)
  then show ?thesis
    unfolding Math_round_def by simp
qed

lemma handleMouseMove_Azimuth:
  "handleMouseMove \<lparr> params = p, onUpdate = True \<rparr>
        \<lparr> dragTarget = Some Azimuth, lastMousePos = l \<rparr> e =
     (\<lparr> dragTarget = Some Azimuth, lastMousePos = \<lparr> lastX = clientX e, lastY = clientY e \<rparr> \<rparr>,
      Some (p \<lparr> azimuth := Math_round
         (let newAz = azimuth p + (clientX e - lastX l) * 0.8;
              newAz = (if newAz \<ge> 360 then newAz - 360 else newAz)
          in if newAz < 0 then newAz + 360 else newAz) \<rparr>))"
  by (simp add: handleMouseMove_def Let_def)

lemma handleMouseMove_Elevation:
  "handleMouseMove \<lparr> params = p, onUpdate = True \<rparr>
        \<lparr> dragTarget = Some Elevation, lastMousePos = l \<rparr> e =
     (\<lparr> dragTarget = Some Elevation, lastMousePos = \<lparr> lastX = clientX e, lastY = clientY e \<rparr> \<rparr>,
      Some (p \<lparr> elevation := Math_round (max (- 85) (min 85 (elevation p - (clientY e - lastY l) * 0.8))) \<rparr>))"
  by (simp add: handleMouseMove_def Let_def)

lemma handleMouseMove_Zoom:
  "handleMouseMove \<lparr> params = p, onUpdate = True \<rparr>
        \<lparr> dragTarget = Some Zoom, lastMousePos = l \<rparr> e =
     (\<lparr> dragTarget = Some Zoom, lastMousePos = \<lparr> lastX = clientX e, lastY = clientY e \<rparr> \<rparr>,
      Some (p \<lparr> distance := fl64 (Math_round (fl64 (max 0.5 (min 2.0
         (fl64 (distance p + fl64 ((clientY e - lastY l) * fl64 0.005)))) * 100)) / 100) \<rparr>))"
  by (simp add: handleMouseMove_def Let_def)

lemma handleMouseMove_Orbit:
  "handleMouseMove \<lparr> params = p, onUpdate = True \<rparr>
        \<lparr> dragTarget = Some Orbit, lastMousePos = l \<rparr> e =
     (\<lparr> dragTarget = Some Orbit, lastMousePos = \<lparr> lastX = clientX e, lastY = clientY e \<rparr> \<rparr>,
      Some (p \<lparr> azimuth := Math_round
         (let newAz = azimuth p + (clientX e - lastX l) * 0.8;
              newAz = (if newAz \<ge> 360 then newAz - 360 else newAz)
          in if newAz < 0 then newAz + 360 else newAz),
          elevation := Math_round (max (- 85) (min 85 (elevation p - (clientY e - lastY l) * 0.8))) \<rparr>))"
  by (simp add: handleMouseMove_def Let_def)

lemma handleWheel_callback:
  "handleWheel \<lparr> params = p, onUpdate = True \<rparr> d =
     Some (p \<lparr> distance := fl64 (Math_round (fl64 (max 0.5 (min 2.0
        (fl64 (distance p + fl64 (d * fl64 0.001)))) * 100)) / 100) \<rparr>)"
  by (simp add: handleWheel_def Let_def)

lemma zoom_rounding:
  "0.5 \<le> fl64 (Math_round (fl64 (max 0.5 (min 2.0 v) * 100)) / 100) \<and>
   fl64 (Math_round (fl64 (max 0.5 (min 2.0 v) * 100)) / 100) \<le> 2 \<and>
   (\<exists>k::int. 50 \<le> k \<and> k \<le> 200 \<and>
      fl64 (Math_round (fl64 (max 0.5 (min 2.0 v) * 100)) / 100) = fl64 (of_int k / 100) \<and>
      \<bar>fl64 (Math_round (fl64 (max 0.5 (min 2.0 v) * 100)) / 100) - of_int k / 100\<bar>
        \<le> 1 / 2 ^ 52 \<and>
      Math_round (fl64 (fl64 (Math_round (fl64 (max 0.5 (min 2.0 v) * 100)) / 100) * 100)) =
        of_int k)"
proof -
  let ?c = "max 0.5 (min 2.0 v) * 100"
  define k where "k = \<lfloor>fl64 ?c + 1 / 2\<rfloor>"
  have c: "50 \<le> ?c" "?c \<le> 200"
    by (simp_all add: max_def min_def)
  have "fl64 50 \<le> fl64 ?c"
    by (rule fl64_mono) (use c in simp_all)
  moreover have "fl64 ?c \<le> fl64 200"
    by (rule fl64_mono) (use c in simp_all)
  ultimately have t: "of_int 50 \<le> fl64 ?c" "fl64 ?c \<le> of_int 200"
    by (simp_all add: fl64_50 fl64_200)
  have k: "50 \<le> k" "k \<le> 200"
    using t unfolding k_def by (simp_all add: le_floor_iff floor_le_iff)
  have out: "Math_round (fl64 ?c) / 100 = of_int k / 100"
    by (simp add: Math_round_def k_def)
  have range: "0.5 \<le> fl64 (of_int k / 100)" "fl64 (of_int k / 100) \<le> 2"
    using two_decimal_range [OF k] by simp_all
  show ?thesis
    unfolding out
    using range k two_decimal_error [OF k] two_decimal_fixpoint [OF k] by blast
qed

section \<open>Properties of the update rules\<close>

text \<open>
  C2. Whatever the starting parameters and the pointer position, a pointer-move during an
  elevation drag and during an orbit drag publishes the same elevation: the starting
  elevation minus 0.8 times the vertical delta, clamped to the interval from -85 to 85 and
  then rounded to the nearest whole degree. The published elevation lies between -85 and
  85 inclusive.
\<close>

theorem elevation_drag_range:
  "\<exists>w1 p1 w2 p2.
     handleMouseMove \<lparr> params = p, onUpdate = True \<rparr>
        \<lparr> dragTarget = Some Elevation, lastMousePos = l \<rparr> e = (w1, Some p1) \<and>
     handleMouseMove \<lparr> params = p, onUpdate = True \<rparr>
        \<lparr> dragTarget = Some Orbit, lastMousePos = l \<rparr> e = (w2, Some p2) \<and>
     elevation p1 = Math_round (max (- 85) (min 85 (elevation p - (clientY e - lastY l) * 0.8))) \<and>
     elevation p2 = elevation p1 \<and>
     - 85 \<le> elevation p1 \<and> elevation p1 \<le> 85"
  using Math_round_between [of "- 85" "max (- 85) (min 85 (elevation p - (clientY e - lastY l) * 0.8))" 85]
  by (simp add: handleMouseMove_Elevation handleMouseMove_Orbit)

text \<open>Elevation 80 with a vertical delta of -100 is driven to exactly 85.\<close>

theorem elevation_drag_range_witness:
  "handleMouseMove \<lparr> params = \<lparr> azimuth = 0, elevation = 80, distance = 1 \<rparr>, onUpdate = True \<rparr>
        \<lparr> dragTarget = Some Elevation, lastMousePos = \<lparr> lastX = 0, lastY = 0 \<rparr> \<rparr>
        \<lparr> clientX = 0, clientY = - 100 \<rparr> =
     (\<lparr> dragTarget = Some Elevation, lastMousePos = \<lparr> lastX = 0, lastY = - 100 \<rparr> \<rparr>,
      Some \<lparr> azimuth = 0, elevation = 85, distance = 1 \<rparr>)"
  using elevation_drag_range [of "\<lparr> azimuth = 0, elevation = 80, distance = 1 \<rparr>"
      "\<lparr> lastX = 0, lastY = 0 \<rparr>" "\<lparr> clientX = 0, clientY = - 100 \<rparr>"]
  by (simp add: handleMouseMove_Elevation Math_round_def)

text \<open>
  C3. In double arithmetic, a pointer-move during a zoom drag takes the distance plus
  0.005 times the vertical delta, and a wheel event the distance plus 0.001 times the wheel
  delta; either is clamped to the interval from 0.5 to 2, multiplied by 100, rounded to
  the nearest integer and divided by 100. For every starting distance and every delta
  the published distance lies between 0.5 and 2 inclusive and is a multiple of 0.01 as
  doubles have them: there is an integer k from 50 to 200 such that the published
  distance is the double nearest to k / 100, within \<open>2\<^sup>-\<^sup>5\<^sup>2\<close> of it, and multiplying the
  published distance by 100 and rounding gives k back.
\<close>

theorem zoom_distance_two_decimals:
  "\<exists>w1 p1 p2.
     handleMouseMove \<lparr> params = p, onUpdate = True \<rparr>
        \<lparr> dragTarget = Some Zoom, lastMousePos = l \<rparr> e = (w1, Some p1) \<and>
     handleWheel \<lparr> params = p, onUpdate = True \<rparr> d = Some p2 \<and>
     distance p1 = fl64 (Math_round (fl64 (max 0.5 (min 2.0
         (fl64 (distance p + fl64 ((clientY e - lastY l) * fl64 0.005)))) * 100)) / 100) \<and>
     distance p2 = fl64 (Math_round (fl64 (max 0.5 (min 2.0
         (fl64 (distance p + fl64 (d * fl64 0.001)))) * 100)) / 100) \<and>
     0.5 \<le> distance p1 \<and> distance p1 \<le> 2 \<and>
     (\<exists>k::int. 50 \<le> k \<and> k \<le> 200 \<and> distance p1 = fl64 (of_int k / 100) \<and>
        \<bar>distance p1 - of_int k / 100\<bar> \<le> 1 / 2 ^ 52 \<and>
        Math_round (fl64 (distance p1 * 100)) = of_int k) \<and>
     0.5 \<le> distance p2 \<and> distance p2 \<le> 2 \<and>
     (\<exists>k::int. 50 \<le> k \<and> k \<le> 200 \<and> distance p2 = fl64 (of_int k / 100) \<and>
        \<bar>distance p2 - of_int k / 100\<bar> \<le> 1 / 2 ^ 52 \<and>
        Math_round (fl64 (distance p2 * 100)) = of_int k)"
  using zoom_rounding [of "fl64 (distance p + fl64 ((clientY e - lastY l) * fl64 0.005))"]
        zoom_rounding [of "fl64 (distance p + fl64 (d * fl64 0.001))"]
  by (simp add: handleMouseMove_Zoom handleWheel_callback)

text \<open>Distance 1 with a wheel delta of 5: the sum is the double 1.005, its product with
  100 is the double just below 100.5, and 1 is published. Distance 1.25 with a zoom drag
  of one pixel: the product is the double just below 125.5, and 1.25 is published.\<close>

theorem zoom_distance_two_decimals_witness:
  "handleWheel \<lparr> params = \<lparr> azimuth = 0, elevation = 0, distance = 1 \<rparr>, onUpdate = True \<rparr> 5 =
     Some \<lparr> azimuth = 0, elevation = 0, distance = 1 \<rparr> \<and>
   snd (handleMouseMove \<lparr> params = \<lparr> azimuth = 0, elevation = 0, distance = 1.25 \<rparr>, onUpdate = True \<rparr>
        \<lparr> dragTarget = Some Zoom, lastMousePos = \<lparr> lastX = 0, lastY = 0 \<rparr> \<rparr>
        \<lparr> clientX = 0, clientY = 1 \<rparr>) =
     Some \<lparr> azimuth = 0, elevation = 0, distance = 1.25 \<rparr>"
proof -
  have g1: "fl64 (1 / 1000) = 1152921504606847 / 1152921504606846976"
    using fl64_val [of "- 10" "1 / 1000"]
    by (simp add: powr_neg_numeral rne_def)
  have g2: "fl64 (1 / 200) = 5764607523034235 / 1152921504606846976"
    using fl64_val [of "- 8" "1 / 200"]
    by (simp add: powr_neg_numeral rne_def)
  have f1: "fl64 (5764607523034235 / 1152921504606846976) =
      5764607523034235 / 1152921504606846976"
    using fl64_val [of "- 8" "5764607523034235 / 1152921504606846976"]
    by (simp add: powr_neg_numeral rne_def)
  have f2: "fl64 (1158686112129881211 / 1152921504606846976) =
      1131529406376837 / 1125899906842624"
    using fl64_val [of 0 "1158686112129881211 / 1152921504606846976"]
    by (simp add: powr_neg_numeral rne_def)
  have f3: "fl64 (28288235159420925 / 281474976710656) = 7072058789855231 / 70368744177664"
    using fl64_val [of 6 "28288235159420925 / 281474976710656"]
    by (simp add: powr_neg_numeral rne_def)
  have f4: "fl64 (1446916488281592955 / 1152921504606846976) =
      1413004383087493 / 1125899906842624"
    using fl64_val [of 0 "1446916488281592955 / 1152921504606846976"]
    by (simp add: powr_neg_numeral rne_def)
  have f5: "fl64 (35325109577187325 / 281474976710656) = 8831277394296831 / 70368744177664"
    using fl64_val [of 6 "35325109577187325 / 281474976710656"]
    by (simp add: powr_neg_numeral rne_def)
  have f6: "fl64 (5 / 4) = 5 / 4"
    using fl64_val [of 0 "5 / 4"]
    by (simp add: powr_neg_numeral rne_def)
  have f7: "fl64 125 = 125"
    using fl64_val [of 6 125]
    by (simp add: powr_neg_numeral rne_def)
  have f8: "fl64 0 = 0"
    by (simp add: fl64_def)
  show ?thesis
    using zoom_distance_two_decimals [of "\<lparr> azimuth = 0, elevation = 0, distance = 1 \<rparr>"
        "\<lparr> lastX = 0, lastY = 0 \<rparr>" "\<lparr> clientX = 0, clientY = 1 \<rparr>" 5]
      zoom_distance_two_decimals [of "\<lparr> azimuth = 0, elevation = 0, distance = 1.25 \<rparr>"
        "\<lparr> lastX = 0, lastY = 0 \<rparr>" "\<lparr> clientX = 0, clientY = 1 \<rparr>" 0]
    by (simp add: handleMouseMove_Zoom handleWheel_callback Math_round_def
          g1 g2 f1 f2 f3 f4 f5 f6 f7 f8 fl64_1)
qed


text \<open>The single-step correction is enough whenever the unwrapped sum lies in the
  interval from -360 (inclusive) to 720 (exclusive), which holds for every starting azimuth
  from 0 (inclusive) to 360 (exclusive) and every horizontal delta of at most 450 pixels in
  size: then the wrapped value lies in the interval from 0 (inclusive) to 360 (exclusive).
  The value published is the wrapped value rounded to the nearest whole degree; it is
  below 360 whenever the wrapped value is below 359.5.\<close>

lemma azimuth_wrap_window:
  assumes "- 360 \<le> azimuth p + (clientX e - lastX l) * 0.8"
    and "azimuth p + (clientX e - lastX l) * 0.8 < 720"
  shows "\<exists>w1 p1 a.
     handleMouseMove \<lparr> params = p, onUpdate = True \<rparr>
        \<lparr> dragTarget = Some Azimuth, lastMousePos = l \<rparr> e = (w1, Some p1) \<and>
     a = (let newAz = azimuth p + (clientX e - lastX l) * 0.8;
              newAz = (if newAz \<ge> 360 then newAz - 360 else newAz)
          in if newAz < 0 then newAz + 360 else newAz) \<and>
     0 \<le> a \<and> a < 360 \<and>
     azimuth p1 = Math_round a \<and>
     0 \<le> azimuth p1 \<and>
     (a < 359.5 \<longrightarrow> azimuth p1 < 360)"
proof -
  define a where "a = (let newAz = azimuth p + (clientX e - lastX l) * 0.8;
              newAz = (if newAz \<ge> 360 then newAz - 360 else newAz)
          in if newAz < 0 then newAz + 360 else newAz)"
  have range: "0 \<le> a" "a < 360"
    using assms by (simp_all add: a_def Let_def)
  have "of_int 0 \<le> Math_round a \<and> Math_round a \<le> of_int 360"
    by (rule Math_round_between) (use range in simp_all)
  moreover have "a < 359.5 \<longrightarrow> Math_round a < 360"
    using Math_round_below_half [of a 360] by simp
  ultimately show ?thesis
    using range by (simp add: handleMouseMove_Azimuth a_def)
qed

text \<open>
  C1. The claim asks that a pointer-move during an azimuth drag publish an azimuth in the
  interval from 0 (inclusive) to 360 (exclusive). The code does not: from azimuth 359, a
  pointer-move one pixel to the right gives 359.8, which neither correction touches, and
  the rounding after the wrap publishes 360. The wrap itself treats 360 as out of range:
  from azimuth 350, a move of 12.5 pixels gives exactly 360, which is wrapped to 0 and
  published as 0. From azimuth 359, a move of 2.5 pixels gives 361 and publishes 1.
\<close>

theorem azimuth_drag_publishes_360:
  "snd (handleMouseMove \<lparr> params = \<lparr> azimuth = 359, elevation = 0, distance = 1 \<rparr>, onUpdate = True \<rparr>
        \<lparr> dragTarget = Some Azimuth, lastMousePos = \<lparr> lastX = 0, lastY = 0 \<rparr> \<rparr>
        \<lparr> clientX = 1, clientY = 0 \<rparr>) =
     Some \<lparr> azimuth = 360, elevation = 0, distance = 1 \<rparr> \<and>
   snd (handleMouseMove \<lparr> params = \<lparr> azimuth = 350, elevation = 0, distance = 1 \<rparr>, onUpdate = True \<rparr>
        \<lparr> dragTarget = Some Azimuth, lastMousePos = \<lparr> lastX = 0, lastY = 0 \<rparr> \<rparr>
        \<lparr> clientX = 12.5, clientY = 0 \<rparr>) =
     Some \<lparr> azimuth = 0, elevation = 0, distance = 1 \<rparr> \<and>
   snd (handleMouseMove \<lparr> params = \<lparr> azimuth = 359, elevation = 0, distance = 1 \<rparr>, onUpdate = True \<rparr>
        \<lparr> dragTarget = Some Azimuth, lastMousePos = \<lparr> lastX = 0, lastY = 0 \<rparr> \<rparr>
        \<lparr> clientX = 2.5, clientY = 0 \<rparr>) =
     Some \<lparr> azimuth = 1, elevation = 0, distance = 1 \<rparr>"
  by (simp add: handleMouseMove_Azimuth Math_round_def)

text \<open>
  C4. A pointer-move during an orbit drag publishes the azimuth that the azimuth drag
  publishes and the elevation that the elevation drag publishes for the same starting
  parameters, the same reference point and the same pointer position, and leaves the
  distance alone. An orbit drag by 10 pixels to the right and none vertically, from
  azimuth 0 and elevation 0, publishes azimuth 8 and elevation 0.
\<close>

theorem orbit_drag_both:
  "(\<exists>w1 pa w2 pe w3.
     handleMouseMove \<lparr> params = p, onUpdate = True \<rparr>
        \<lparr> dragTarget = Some Azimuth, lastMousePos = l \<rparr> e = (w1, Some pa) \<and>
     handleMouseMove \<lparr> params = p, onUpdate = True \<rparr>
        \<lparr> dragTarget = Some Elevation, lastMousePos = l \<rparr> e = (w2, Some pe) \<and>
     handleMouseMove \<lparr> params = p, onUpdate = True \<rparr>
        \<lparr> dragTarget = Some Orbit, lastMousePos = l \<rparr> e =
       (w3, Some \<lparr> azimuth = azimuth pa, elevation = elevation pe, distance = distance p \<rparr>)) \<and>
   handleMouseMove \<lparr> params = \<lparr> azimuth = 0, elevation = 0, distance = d \<rparr>, onUpdate = True \<rparr>
        \<lparr> dragTarget = Some Orbit, lastMousePos = \<lparr> lastX = x0, lastY = y0 \<rparr> \<rparr>
        \<lparr> clientX = x0 + 10, clientY = y0 \<rparr> =
     (\<lparr> dragTarget = Some Orbit, lastMousePos = \<lparr> lastX = x0 + 10, lastY = y0 \<rparr> \<rparr>,
      Some \<lparr> azimuth = 8, elevation = 0, distance = d \<rparr>)"
  by (simp add: handleMouseMove_Azimuth handleMouseMove_Elevation handleMouseMove_Orbit
        Math_round_def)

theorem orbit_drag_both_witness:
  "snd (handleMouseMove \<lparr> params = \<lparr> azimuth = 350, elevation = 84, distance = 1 \<rparr>, onUpdate = True \<rparr>
        \<lparr> dragTarget = Some Orbit, lastMousePos = \<lparr> lastX = 100, lastY = 100 \<rparr> \<rparr>
        \<lparr> clientX = 120, clientY = 90 \<rparr>) =
     Some \<lparr> azimuth = 6, elevation = 85, distance = 1 \<rparr>"
  using orbit_drag_both [of "\<lparr> azimuth = 350, elevation = 84, distance = 1 \<rparr>"
      "\<lparr> lastX = 100, lastY = 100 \<rparr>" "\<lparr> clientX = 120, clientY = 90 \<rparr>" 1 100 100]
  by (simp add: handleMouseMove_Azimuth handleMouseMove_Elevation handleMouseMove_Orbit
        Math_round_def)

section \<open>Properties of the scene and the projection\<close>

lemma cos_rad_pos:
  assumes "- 85 \<le> d" "d \<le> 85"
  shows "0 < cos (rad d)"
proof (rule cos_gt_zero_pi)
  have lo: "pi * (- 85) \<le> pi * d"
    using assms(1) by (intro mult_left_mono) simp_all
  have hi: "pi * d \<le> pi * 85"
    using assms(2) by (intro mult_left_mono) simp_all
  have rd: "rad d = pi * d / 180"
    by (simp add: rad_def)
  show "- (pi / 2) < rad d"
    unfolding rd using lo pi_gt_zero by linarith
  show "rad d < pi / 2"
    unfolding rd using hi pi_gt_zero by linarith
qed

lemma sphere_norm:
  fixes r sa ca se ce :: real
  assumes "sa\<^sup>2 + ca\<^sup>2 = 1" "se\<^sup>2 + ce\<^sup>2 = 1"
  shows "(r * sa * ce)\<^sup>2 + (r * se)\<^sup>2 + (r * ca * ce)\<^sup>2 = r\<^sup>2"
proof -
  have "(r * sa * ce)\<^sup>2 + (r * se)\<^sup>2 + (r * ca * ce)\<^sup>2 =
        r\<^sup>2 * ((sa\<^sup>2 + ca\<^sup>2) * ce\<^sup>2 + se\<^sup>2)"
    by (simp add: power2_eq_square algebra_simps)
  also have "\<dots> = r\<^sup>2 * (se\<^sup>2 + ce\<^sup>2)"
    unfolding assms(1) by simp
  finally show ?thesis
    unfolding assms(2) by simp
qed

text \<open>
  C5. For every parameter triple the ring radius is 50 plus 25 times the distance, and the
  camera sits at (R sin a cos e, R sin e, R cos a cos e), where a and e are azimuth and
  elevation in radians: a point at distance R from the origin. At azimuth 0 the camera has
  no X component, at azimuth 0 and elevation 0 it is the point (0, 0, R) of the Z axis, and
  for a distance of at least 0.5 and an elevation between -85 and 85 its Z component at
  azimuth 0 is positive. The azimuth handle sits at (R sin a, 0, R cos a): in the horizontal
  plane, at distance R from the origin, and the same whatever the elevation. The elevation
  handle is the camera position.
\<close>

theorem scene_geometry:
  "ringRadius p = 50 + distance p * 25 \<and>
   camX p = ringRadius p * sin (rad (azimuth p)) * cos (rad (elevation p)) \<and>
   camY p = ringRadius p * sin (rad (elevation p)) \<and>
   camZ p = ringRadius p * cos (rad (azimuth p)) * cos (rad (elevation p)) \<and>
   rad d = d * pi / 180 \<and>
   (camX p)\<^sup>2 + (camY p)\<^sup>2 + (camZ p)\<^sup>2 = (ringRadius p)\<^sup>2 \<and>
   camX (p \<lparr> azimuth := 0 \<rparr>) = 0 \<and>
   (camX (p \<lparr> azimuth := 0, elevation := 0 \<rparr>), camY (p \<lparr> azimuth := 0, elevation := 0 \<rparr>),
    camZ (p \<lparr> azimuth := 0, elevation := 0 \<rparr>)) = (0, 0, ringRadius p) \<and>
   (0.5 \<le> distance p \<and> - 85 \<le> elevation p \<and> elevation p \<le> 85 \<longrightarrow>
      0 < ringRadius p \<and> 0 < camZ (p \<lparr> azimuth := 0 \<rparr>)) \<and>
   (azHandleX p, azHandleY p, azHandleZ p) =
     (ringRadius p * sin (rad (azimuth p)), 0, ringRadius p * cos (rad (azimuth p))) \<and>
   (azHandleX p)\<^sup>2 + (azHandleZ p)\<^sup>2 = (ringRadius p)\<^sup>2 \<and>
   (azHandleX (p \<lparr> elevation := el \<rparr>), azHandleY (p \<lparr> elevation := el \<rparr>),
    azHandleZ (p \<lparr> elevation := el \<rparr>)) = (azHandleX p, azHandleY p, azHandleZ p) \<and>
   (elHandleX p, elHandleY p, elHandleZ p) = (camX p, camY p, camZ p)"
proof -
  let ?R = "ringRadius p"
  let ?a = "rad (azimuth p)"
  let ?e = "rad (elevation p)"
  have ring: "(?R * sin ?a)\<^sup>2 + (?R * cos ?a)\<^sup>2 = ?R\<^sup>2"
  proof -
    have "(?R * sin ?a)\<^sup>2 + (?R * cos ?a)\<^sup>2 = ?R\<^sup>2 * ((sin ?a)\<^sup>2 + (cos ?a)\<^sup>2)"
      by (simp only: power_mult_distrib distrib_left)
    then show ?thesis by simp
  qed
  have sphere: "(camX p)\<^sup>2 + (camY p)\<^sup>2 + (camZ p)\<^sup>2 = ?R\<^sup>2"
    unfolding camX_def camY_def camZ_def by (rule sphere_norm) simp_all
  have front: "0.5 \<le> distance p \<and> - 85 \<le> elevation p \<and> elevation p \<le> 85 \<longrightarrow>
      0 < ringRadius p \<and> 0 < camZ (p \<lparr> azimuth := 0 \<rparr>)"
  proof
    assume h: "0.5 \<le> distance p \<and> - 85 \<le> elevation p \<and> elevation p \<le> 85"
    then have R: "0 < ringRadius p"
      by (simp add: ringRadius_def)
    have "0 < cos (rad (elevation p))"
      using h by (simp add: cos_rad_pos)
    then show "0 < ringRadius p \<and> 0 < camZ (p \<lparr> azimuth := 0 \<rparr>)"
      using R by (simp add: camZ_def rad_def ringRadius_def)
  qed
  have rest: "ringRadius p = 50 + distance p * 25"
    "camX p = ringRadius p * sin (rad (azimuth p)) * cos (rad (elevation p))"
    "camY p = ringRadius p * sin (rad (elevation p))"
    "camZ p = ringRadius p * cos (rad (azimuth p)) * cos (rad (elevation p))"
    "rad d = d * pi / 180"
    "camX (p \<lparr> azimuth := 0 \<rparr>) = 0"
    "(camX (p \<lparr> azimuth := 0, elevation := 0 \<rparr>), camY (p \<lparr> azimuth := 0, elevation := 0 \<rparr>),
      camZ (p \<lparr> azimuth := 0, elevation := 0 \<rparr>)) = (0, 0, ringRadius p)"
    "(azHandleX p, azHandleY p, azHandleZ p) =
       (ringRadius p * sin (rad (azimuth p)), 0, ringRadius p * cos (rad (azimuth p)))"
    "(azHandleX (p \<lparr> elevation := el \<rparr>), azHandleY (p \<lparr> elevation := el \<rparr>),
      azHandleZ (p \<lparr> elevation := el \<rparr>)) = (azHandleX p, azHandleY p, azHandleZ p)"
    "(elHandleX p, elHandleY p, elHandleZ p) = (camX p, camY p, camZ p)"
    by (simp_all add: ringRadius_def camX_def camY_def camZ_def rad_def azHandleX_def
          azHandleY_def azHandleZ_def elHandleX_def elHandleY_def elHandleZ_def)
  have handle: "(azHandleX p)\<^sup>2 + (azHandleZ p)\<^sup>2 = (ringRadius p)\<^sup>2"
    using ring by (simp add: azHandleX_def azHandleZ_def)
  show ?thesis
    using rest sphere front handle by blast
qed

theorem scene_geometry_witness:
  "camZ \<lparr> azimuth = 0, elevation = 0, distance = 1 \<rparr> = 75 \<and>
   camX \<lparr> azimuth = 0, elevation = 0, distance = 1 \<rparr> = 0 \<and>
   camY \<lparr> azimuth = 0, elevation = 0, distance = 1 \<rparr> = 0 \<and>
   0 < ringRadius \<lparr> azimuth = 0, elevation = 0, distance = 1 \<rparr>"
  using scene_geometry [of "\<lparr> azimuth = 0, elevation = 0, distance = 1 \<rparr>" 0 0]
  by (simp add: ringRadius_def)

lemma rotation_keeps_norm:
  fixes x z s c :: real
  assumes "s\<^sup>2 + c\<^sup>2 = 1"
  shows "(x * c - z * s)\<^sup>2 + (x * s + z * c)\<^sup>2 = x\<^sup>2 + z\<^sup>2"
proof -
  have "(x * c - z * s)\<^sup>2 + (x * s + z * c)\<^sup>2 = (x\<^sup>2 + z\<^sup>2) * (s\<^sup>2 + c\<^sup>2)"
    by (simp add: power2_eq_square algebra_simps)
  then show ?thesis
    using assms by simp
qed

text \<open>The view-space depth of a point is at most its distance from the origin: yaw and
  pitch are rotations.\<close>

lemma view_depth_bound:
  fixes x y z P W :: real
  shows "(y * sin P + (x * sin W + z * cos W) * cos P)\<^sup>2 \<le> x\<^sup>2 + y\<^sup>2 + z\<^sup>2"
proof -
  let ?z1 = "x * sin W + z * cos W"
  let ?x1 = "x * cos W - z * sin W"
  have yaw: "?x1\<^sup>2 + ?z1\<^sup>2 = x\<^sup>2 + z\<^sup>2"
    by (rule rotation_keeps_norm) simp
  have pitch: "(y * cos P - ?z1 * sin P)\<^sup>2 + (y * sin P + ?z1 * cos P)\<^sup>2 = y\<^sup>2 + ?z1\<^sup>2"
    by (rule rotation_keeps_norm) simp
  have "(y * sin P + ?z1 * cos P)\<^sup>2 \<le> y\<^sup>2 + ?z1\<^sup>2"
    using pitch zero_le_power2 [of "y * cos P - ?z1 * sin P"] by linarith
  also have "\<dots> \<le> y\<^sup>2 + (?x1\<^sup>2 + ?z1\<^sup>2)"
    using zero_le_power2 [of ?x1] by linarith
  also have "\<dots> = x\<^sup>2 + y\<^sup>2 + z\<^sup>2"
    using yaw by simp
  finally show ?thesis .
qed

lemma sin_pitch_pos: "0 < sin (20 * pi / 180)"
  by (rule sin_gt_zero) simp_all

text \<open>
  C6. The origin projects to the viewport centre, (300, 200) for the 600 by 400 viewport
  of the source, with perspective scale 1 and depth 0. The same holds for every view
  configuration (pitch, yaw, scale factor, viewport size) whose focal distance is not
  zero: the result is the centre of that viewport at scale 1.
\<close>

theorem project_origin_center:
  "project 0 0 0 = Some \<lparr> projX = 300, projY = 200, projScale = 1, projZ = 0 \<rparr> \<and>
   (\<forall>v. depth v \<noteq> 0 \<longrightarrow>
      projectWith v 0 0 0 =
        Some \<lparr> projX = width v / 2, projY = height v / 2, projScale = 1, projZ = 0 \<rparr>)"
  by (simp add: project_def projectWith_def editorView_def)

theorem project_origin_center_witness:
  "projectWith \<lparr> width = 800, height = 600, viewPitch = 1, viewYaw = 2, scaleFactor = 10, depth = 5 \<rparr> 0 0 0 =
     Some \<lparr> projX = 400, projY = 300, projScale = 1, projZ = 0 \<rparr>"
  using project_origin_center by simp

text \<open>
  C7, as stated, fails: the divisor of the perspective division is 800 minus the
  view-space depth, and the point on the vertical axis at height 800 / sin 20 degrees has
  view-space depth 800, so the divisor is zero there.
\<close>

theorem project_total_counterexample:
  "project 0 (800 / sin (20 * pi / 180)) 0 = None"
  using sin_pitch_pos by (simp add: project_def projectWith_def editorView_def)

text \<open>
  C7, amended. The projection reads its arguments and the view constants only. For every
  real point its divisor is 800 minus the view-space depth of the point, and the
  projection returns a result exactly when that depth is not 800: the result then carries
  the depth, and its scale is 800 divided by the divisor, which is never zero and is
  positive exactly when the depth is below 800. No point closer to the origin than 800
  has depth 800.
\<close>

theorem project_defined_iff:
  "(project x y z = None \<longleftrightarrow>
      y * sin (20 * pi / 180) +
        (x * sin (45 * pi / 180) + z * cos (45 * pi / 180)) * cos (20 * pi / 180) = 800) \<and>
   (\<forall>r. project x y z = Some r \<longrightarrow>
      projZ r = y * sin (20 * pi / 180) +
        (x * sin (45 * pi / 180) + z * cos (45 * pi / 180)) * cos (20 * pi / 180) \<and>
      projZ r \<noteq> 800 \<and>
      projScale r = 800 / (800 - projZ r) \<and>
      projScale r \<noteq> 0 \<and>
      (0 < projScale r \<longleftrightarrow> projZ r < 800)) \<and>
   (x\<^sup>2 + y\<^sup>2 + z\<^sup>2 < 800\<^sup>2 \<longrightarrow> (\<exists>r. project x y z = Some r \<and> 0 < projScale r))"
proof -
  define z2 where "z2 = y * sin (20 * pi / 180) +
      (x * sin (45 * pi / 180) + z * cos (45 * pi / 180)) * cos (20 * pi / 180)"
  have none: "project x y z = None \<longleftrightarrow> z2 = 800"
    by (auto simp add: project_def projectWith_def editorView_def Let_def z2_def)
  have some: "\<forall>r. project x y z = Some r \<longrightarrow>
      projZ r = z2 \<and> projZ r \<noteq> 800 \<and> projScale r = 800 / (800 - projZ r) \<and>
      projScale r \<noteq> 0 \<and> (0 < projScale r \<longleftrightarrow> projZ r < 800)"
    by (auto simp add: project_def projectWith_def editorView_def Let_def z2_def
          zero_less_divide_iff split: if_splits)
  have near: "x\<^sup>2 + y\<^sup>2 + z\<^sup>2 < 800\<^sup>2 \<longrightarrow> (\<exists>r. project x y z = Some r \<and> 0 < projScale r)"
  proof
    assume inside: "x\<^sup>2 + y\<^sup>2 + z\<^sup>2 < 800\<^sup>2"
    have "z2\<^sup>2 \<le> x\<^sup>2 + y\<^sup>2 + z\<^sup>2"
      unfolding z2_def by (rule view_depth_bound)
    then have "z2\<^sup>2 < 800\<^sup>2"
      using inside by linarith
    then have "z2 < 800"
      by (rule power2_less_imp_less) simp
    then show "\<exists>r. project x y z = Some r \<and> 0 < projScale r"
      by (simp add: project_def projectWith_def editorView_def Let_def z2_def)
  qed
  show ?thesis
    using none some near unfolding z2_def by blast
qed

text \<open>The point (0, 0, -5000), far outside the ball of radius 800, has negative depth and
  projects with a positive scale.\<close>

theorem project_defined_iff_witness:
  "(\<exists>r. project 0 0 (- 5000) = Some r \<and> 0 < projScale r \<and> projZ r < 0) \<and>
   (\<exists>r. project 100 (- 20) 100 = Some r \<and> 0 < projScale r)"
proof -
  have p: "0 < pi"
    by simp
  have "0 < cos (45 * pi / 180)"
    by (rule cos_gt_zero_pi) (use p in linarith)+
  moreover have "0 < cos (20 * pi / 180)"
    by (rule cos_gt_zero_pi) (use p in linarith)+
  ultimately have "0 < cos (45 * pi / 180)" "0 < cos (20 * pi / 180)"
    by simp_all
  then have neg: "(- 5000) * cos (45 * pi / 180) * cos (20 * pi / 180) < 0"
    by (simp add: mult_neg_pos)
  then have "project 0 0 (- 5000) \<noteq> None"
    using project_defined_iff [of 0 0 "- 5000"] by auto
  then obtain r where r: "project 0 0 (- 5000) = Some r"
    by auto
  then have "projZ r = (- 5000) * cos (45 * pi / 180) * cos (20 * pi / 180)"
    using project_defined_iff [of 0 0 "- 5000"] by auto
  then have "projZ r < 0"
    using neg by simp
  moreover from this have "0 < projScale r"
    using r project_defined_iff [of 0 0 "- 5000"] by auto
  ultimately have far: "\<exists>r. project 0 0 (- 5000) = Some r \<and> 0 < projScale r \<and> projZ r < 0"
    using r by blast
  have "\<exists>r. project 100 (- 20) 100 = Some r \<and> 0 < projScale r"
    using project_defined_iff [of 100 "- 20" 100] by auto
  then show ?thesis
    using far by blast
qed

section \<open>Properties of the interaction controller\<close>

text \<open>State set by a handler is visible to the next event: the component is rendered again
  before the next event is delivered.\<close>

lemma handleMouseMove_idle:
  "dragTarget w = None \<Longrightarrow> handleMouseMove pr w e = (w, None)"
  by (simp add: handleMouseMove_def)

lemma handleMouseMove_read_only:
  "\<not> onUpdate pr \<Longrightarrow> handleMouseMove pr w e = (w, None)"
  by (simp add: handleMouseMove_def split: option.splits)

lemma handleMouseMove_dragTarget:
  "dragTarget (fst (handleMouseMove pr w e)) = dragTarget w"
  by (simp add: handleMouseMove_def Let_def split: option.splits DragTarget.splits)

lemma handleMouseMove_distance:
  assumes "dragTarget w \<noteq> Some Zoom" "snd (handleMouseMove pr w e) = Some p'"
  shows "distance p' = distance (params pr)"
  using assms
  by (auto simp add: handleMouseMove_def Let_def split: option.splits DragTarget.splits if_splits)

lemma mouseDownTarget_not_Zoom: "mouseDownTarget el \<noteq> Zoom"
  by (cases el) simp_all

lemma dispatch_not_Zoom:
  assumes "dragTarget w \<noteq> Some Zoom"
  shows "dragTarget (fst (dispatch pr w ev)) \<noteq> Some Zoom"
proof (cases ev)
  case (MouseDown el e)
  then show ?thesis
    using assms by (simp add: handleMouseDown_def mouseDownTarget_not_Zoom)
next
  case (MouseMove e)
  then show ?thesis
    using assms by (simp add: handleMouseMove_dragTarget)
qed (use assms in \<open>simp_all add: handleMouseUp_def\<close>)

lemma widget_step: "widget (step cb s ev) =
    fst (dispatch \<lparr> params = hostParams s, onUpdate = cb \<rparr> (widget s) ev)"
  by (simp add: step_def split: prod.splits option.splits)

lemma step_not_Zoom:
  "dragTarget (widget s) \<noteq> Some Zoom \<Longrightarrow> dragTarget (widget (step cb s ev)) \<noteq> Some Zoom"
  by (simp add: widget_step dispatch_not_Zoom)

lemma run_not_Zoom:
  "dragTarget (widget s) \<noteq> Some Zoom \<Longrightarrow> dragTarget (widget (run cb s evs)) \<noteq> Some Zoom"
  unfolding run_def
  by (induction evs arbitrary: s) (simp_all add: step_not_Zoom)

lemma step_distance:
  assumes "dragTarget (widget s) \<noteq> Some Zoom" "\<forall>d. ev \<noteq> Wheel d"
  shows "distance (hostParams (step cb s ev)) = distance (hostParams s)"
proof (cases ev)
  case (MouseMove e)
  obtain w' r where hm:
    "handleMouseMove \<lparr> params = hostParams s, onUpdate = cb \<rparr> (widget s) e = (w', r)"
    by (cases "handleMouseMove \<lparr> params = hostParams s, onUpdate = cb \<rparr> (widget s) e")
  show ?thesis
  proof (cases r)
    case None
    then show ?thesis
      using MouseMove hm by (simp add: step_def)
  next
    case (Some p')
    then have "snd (handleMouseMove \<lparr> params = hostParams s, onUpdate = cb \<rparr> (widget s) e) = Some p'"
      using hm by simp
    then have "distance p' = distance (hostParams s)"
      using handleMouseMove_distance [OF assms(1)] by fastforce
    then show ?thesis
      using MouseMove hm Some by (simp add: step_def)
  qed
next
  case (Wheel d)
  then show ?thesis using assms(2) by simp
qed (simp_all add: step_def)

lemma step_release:
  assumes "ev = MouseUp \<or> ev = MouseLeave"
  shows "step cb s ev = s \<lparr> widget := (widget s) \<lparr> dragTarget := None \<rparr> \<rparr>"
  using assms by (auto simp add: step_def handleMouseUp_def)

lemma step_move_idle:
  "dragTarget (widget s) = None \<Longrightarrow> step cb s (MouseMove e) = s"
  by (simp add: step_def handleMouseMove_idle)

lemma run_moves_idle:
  "dragTarget (widget s) = None \<Longrightarrow> run cb s (map MouseMove ms) = s"
  unfolding run_def
  by (induction ms) (simp_all add: step_move_idle)

lemma step_read_only_idle:
  assumes "dragTarget (widget s) = None"
  shows "step False s ev = s"
proof (cases ev)
  case (MouseMove e)
  then show ?thesis using assms by (simp add: step_move_idle)
qed (use assms in \<open>simp_all add: step_def handleMouseDown_def handleMouseUp_def handleWheel_def\<close>)

lemma run_read_only_idle:
  "dragTarget (widget s) = None \<Longrightarrow> run False s evs = s"
  unfolding run_def
  by (induction evs) (simp_all add: step_read_only_idle)

text \<open>
  C8. From any state of the widget, dragging or not, a pointer-up and a pointer-leave of
  the container clear the drag target and leave the reference point, the host's triple and
  the log of callback calls as they were. In the state reached, a pointer-move returns
  the state unchanged and calls no callback, whatever the properties; any sequence of
  pointer-moves after the release leaves the whole session as it was.
\<close>

theorem release_to_idle:
  assumes "ev = MouseUp \<or> ev = MouseLeave"
  shows "dragTarget (widget (step cb s ev)) = None \<and>
         lastMousePos (widget (step cb s ev)) = lastMousePos (widget s) \<and>
         hostParams (step cb s ev) = hostParams s \<and>
         calls (step cb s ev) = calls s \<and>
         (\<forall>pr e. handleMouseMove pr (widget (step cb s ev)) e = (widget (step cb s ev), None)) \<and>
         run cb (step cb s ev) (map MouseMove ms) = step cb s ev"
proof -
  have idle: "dragTarget (widget (step cb s ev)) = None"
    using assms by (simp add: step_release)
  then show ?thesis
    using assms by (simp add: handleMouseMove_idle run_moves_idle) (simp add: step_release)
qed

theorem release_to_idle_witness:
  "run True (step True \<lparr> hostParams = \<lparr> azimuth = 10, elevation = 0, distance = 1 \<rparr>,
                        widget = \<lparr> dragTarget = Some Azimuth, lastMousePos = \<lparr> lastX = 5, lastY = 5 \<rparr> \<rparr>,
                        calls = [] \<rparr> MouseLeave)
       (map MouseMove [\<lparr> clientX = 50, clientY = 5 \<rparr>, \<lparr> clientX = 90, clientY = 7 \<rparr>]) =
     \<lparr> hostParams = \<lparr> azimuth = 10, elevation = 0, distance = 1 \<rparr>,
       widget = \<lparr> dragTarget = None, lastMousePos = \<lparr> lastX = 5, lastY = 5 \<rparr> \<rparr>,
       calls = [] \<rparr>"
  using release_to_idle [of MouseLeave True
      "\<lparr> hostParams = \<lparr> azimuth = 10, elevation = 0, distance = 1 \<rparr>,
         widget = \<lparr> dragTarget = Some Azimuth, lastMousePos = \<lparr> lastX = 5, lastY = 5 \<rparr> \<rparr>,
         calls = [] \<rparr>"
      "[\<lparr> clientX = 50, clientY = 5 \<rparr>, \<lparr> clientX = 90, clientY = 7 \<rparr>]"]
  by (simp add: step_def handleMouseUp_def)

text \<open>
  C9. Without an update callback, a pointer-down returns the widget state unchanged
  whatever the target, a pointer-move returns the state unchanged and calls nothing, and a
  wheel event calls nothing. A pointer-down on any element leaves an idle widget idle, and
  any sequence of events on an idle widget leaves the drag target, the reference point, the
  host's triple and the log of callback calls unchanged.
\<close>

theorem read_only_no_op:
  "handleMouseDown \<lparr> params = p, onUpdate = False \<rparr> w e target = w \<and>
   handleMouseMove \<lparr> params = p, onUpdate = False \<rparr> w e = (w, None) \<and>
   handleWheel \<lparr> params = p, onUpdate = False \<rparr> d = None \<and>
   dispatch \<lparr> params = p, onUpdate = False \<rparr> \<lparr> dragTarget = None, lastMousePos = l \<rparr> (MouseDown el e) =
     (\<lparr> dragTarget = None, lastMousePos = l \<rparr>, None) \<and>
   run False \<lparr> hostParams = p, widget = \<lparr> dragTarget = None, lastMousePos = l \<rparr>, calls = c \<rparr> evs =
     \<lparr> hostParams = p, widget = \<lparr> dragTarget = None, lastMousePos = l \<rparr>, calls = c \<rparr>"
  by (simp add: handleMouseDown_def handleMouseMove_read_only handleWheel_def run_read_only_idle)

theorem read_only_no_op_witness:
  "run False \<lparr> hostParams = \<lparr> azimuth = 10, elevation = 0, distance = 1 \<rparr>,
               widget = initialWidget, calls = [] \<rparr>
     [MouseDown AzimuthHandle \<lparr> clientX = 1, clientY = 1 \<rparr>, MouseMove \<lparr> clientX = 50, clientY = 5 \<rparr>,
      Wheel 100, MouseUp, MouseDown Background \<lparr> clientX = 1, clientY = 1 \<rparr>,
      MouseMove \<lparr> clientX = 0, clientY = 9 \<rparr>, MouseLeave] =
   \<lparr> hostParams = \<lparr> azimuth = 10, elevation = 0, distance = 1 \<rparr>, widget = initialWidget, calls = [] \<rparr>"
  using read_only_no_op [of "\<lparr> azimuth = 10, elevation = 0, distance = 1 \<rparr>" _ _ _ _
      "\<lparr> lastX = 0, lastY = 0 \<rparr>" _ "[]"]
  by (simp add: initialWidget_def)

text \<open>
  C10. No element passes the zoom target to the pointer-down handler, and no event takes
  a widget whose drag target is not zoom to one whose drag target is zoom, whatever the
  properties. So after any sequence of events from the initial state the drag target is
  not zoom, and from there any event other than a wheel event leaves the distance of the
  host's triple as it was.
\<close>

theorem zoom_unreachable:
  "mouseDownTarget el \<noteq> Zoom \<and>
   (dragTarget w \<noteq> Some Zoom \<longrightarrow> dragTarget (fst (dispatch pr w ev)) \<noteq> Some Zoom) \<and>
   (let s = run cb \<lparr> hostParams = p, widget = initialWidget, calls = [] \<rparr> evs
    in dragTarget (widget s) \<noteq> Some Zoom \<and>
       (\<forall>ev'. (\<forall>d. ev' \<noteq> Wheel d) \<longrightarrow>
          distance (hostParams (step cb s ev')) = distance (hostParams s)))"
proof -
  let ?s = "run cb \<lparr> hostParams = p, widget = initialWidget, calls = [] \<rparr> evs"
  have "dragTarget (widget ?s) \<noteq> Some Zoom"
    by (rule run_not_Zoom) (simp add: initialWidget_def)
  then show ?thesis
    by (simp add: Let_def mouseDownTarget_not_Zoom dispatch_not_Zoom step_distance)
qed


theorem zoom_unreachable_witness:
  "run True \<lparr> hostParams = \<lparr> azimuth = 0, elevation = 0, distance = 1 \<rparr>,
              widget = initialWidget, calls = [] \<rparr>
     [MouseDown CameraBody \<lparr> clientX = 1, clientY = 1 \<rparr>, MouseMove \<lparr> clientX = 3, clientY = 11 \<rparr>] =
   \<lparr> hostParams = \<lparr> azimuth = 0, elevation = - 8, distance = 1 \<rparr>,
     widget = \<lparr> dragTarget = Some Elevation, lastMousePos = \<lparr> lastX = 3, lastY = 11 \<rparr> \<rparr>,
     calls = [\<lparr> azimuth = 0, elevation = - 8, distance = 1 \<rparr>] \<rparr>"
  using zoom_unreachable [of CameraBody initialWidget
      "\<lparr> params = \<lparr> azimuth = 0, elevation = 0, distance = 1 \<rparr>, onUpdate = True \<rparr>"
      "MouseDown CameraBody \<lparr> clientX = 1, clientY = 1 \<rparr>" True
      "\<lparr> azimuth = 0, elevation = 0, distance = 1 \<rparr>"
      "[MouseDown CameraBody \<lparr> clientX = 1, clientY = 1 \<rparr>, MouseMove \<lparr> clientX = 3, clientY = 11 \<rparr>]"]
  by (simp add: run_def step_def handleMouseDown_def handleMouseMove_Elevation
        initialWidget_def Math_round_def)

end
